theory Spec2Isabelle
  imports Complex_Main "HOL-Library.Char_ord" "HOL-Library.List_Lexorder"
begin

section \<open>The student-performance cleaning script (work/answer\_sheet.py)\<close>

text \<open>
  The script is a sequence of top-level statements over one pandas DataFrame. The model
  follows it statement by statement. A DataFrame is an ordered list of named columns; a
  column is either of dtype \<open>object\<close> (text cells, as \<open>read_csv\<close> of pandas 1 and 2
  infers for a column holding a non-numeric field) or numeric (\<open>int64\<close>/\<open>float64\<close>,
  kept as one kind, with exact real values in place of IEEE doubles; columns of
  booleans are left out). The absent value \<open>NaN\<close> is \<open>None\<close>. Strings are lists of
  8-bit characters; case mapping and white space are modelled on the ASCII range.

  An exception is a value: every statement that can raise returns \<open>Inl (e, l)\<close> with the
  exception \<open>e\<close> and the line \<open>l\<close> of the script that raised it, and the statements after it
  do not run.
\<close>

subsection \<open>Data model\<close>

datatype column = ObjectCol "string option list" | NumCol "real option list"

type_synonym dataframe = "(string \<times> column) list"

datatype cell = CText "string option" | CNum "real option"

datatype exn = NameError string | KeyError string | TypeError | FileNotFoundError | ParserError

type_synonym 'a result = "(exn \<times> nat) + 'a"

text \<open>
  Two functions of the Python runtime are parameters of the model: the number parser
  applied by \<open>pd.to_numeric\<close> to a text cell (\<open>None\<close> when the text does not parse), and
  the rendering of a number by \<open>astype(str)\<close>, which depends on the dtype of the column
  and is therefore indexed by the column's name.
\<close>

record pylib =
  to_float :: "string \<Rightarrow> real option"
  num_str :: "string \<Rightarrow> real \<Rightarrow> string"

definition seq :: "'a result \<Rightarrow> ('a \<Rightarrow> 'b result) \<Rightarrow> 'b result" where
  "seq m f = (case m of Inl e \<Rightarrow> Inl e | Inr x \<Rightarrow> f x)"

text \<open>Line 1, \<open>import pandas as pd\<close>, is the only import: \<open>pd\<close> is the only module name bound.\<close>

definition imported :: "string list" where
  "imported = [''pd'']"

definition name_ref :: "string \<Rightarrow> nat \<Rightarrow> unit result" where
  "name_ref n lno = (if n \<in> set imported then Inr () else Inl (NameError n, lno))"

subsection \<open>Frames: columns, rows, indexing\<close>

fun col_len :: "column \<Rightarrow> nat" where
  "col_len (ObjectCol xs) = length xs"
| "col_len (NumCol xs) = length xs"

fun cells :: "column \<Rightarrow> cell list" where
  "cells (ObjectCol xs) = map CText xs"
| "cells (NumCol xs) = map CNum xs"

fun is_object :: "column \<Rightarrow> bool" where
  "is_object (ObjectCol xs) = True"
| "is_object (NumCol xs) = False"

definition nrows :: "dataframe \<Rightarrow> nat" where
  "nrows df = (case df of [] \<Rightarrow> 0 | (n, c) # rest \<Rightarrow> col_len c)"

definition row_at :: "dataframe \<Rightarrow> nat \<Rightarrow> cell list" where
  "row_at df i = map (\<lambda>(n, c). cells c ! i) df"

definition rows :: "dataframe \<Rightarrow> cell list list" where
  "rows df = map (row_at df) [0..<nrows df]"

definition wf_frame :: "dataframe \<Rightarrow> bool" where
  "wf_frame df = (distinct (map fst df) \<and> (\<forall>(n, c) \<in> set df. col_len c = nrows df))"

text \<open>\<open>df[c]\<close> raises KeyError for a column that is not there; \<open>df[c] = v\<close> replaces it.\<close>

definition getitem :: "dataframe \<Rightarrow> string \<Rightarrow> nat \<Rightarrow> column result" where
  "getitem df c lno = (case map_of df c of None \<Rightarrow> Inl (KeyError c, lno) | Some col \<Rightarrow> Inr col)"

fun setitem :: "dataframe \<Rightarrow> string \<Rightarrow> column \<Rightarrow> dataframe" where
  "setitem [] c v = [(c, v)]"
| "setitem ((n, old) # rest) c v = (if n = c then (n, v) # rest else (n, old) # setitem rest c v)"

text \<open>Boolean-mask indexing, \<open>xs[mask]\<close>.\<close>

definition select :: "bool list \<Rightarrow> 'a list \<Rightarrow> 'a list" where
  "select bs xs = map snd (filter fst (zip bs xs))"

fun mask_col :: "bool list \<Rightarrow> column \<Rightarrow> column" where
  "mask_col m (ObjectCol xs) = ObjectCol (select m xs)"
| "mask_col m (NumCol xs) = NumCol (select m xs)"

subsection \<open>Loading (lines 10 and 61) and exploration (lines 80 to 113)\<close>

text \<open>
  \<open>pd.read_csv('student_performance.csv')\<close> is called with the path alone: no
  \<open>names\<close>, \<open>usecols\<close> or \<open>dtype\<close> argument, and the script never compares
  \<open>df.columns\<close> with anything. The tokenizer and the type inference of pandas are not
  part of the repository; a readable file is represented by the frame pandas parses from
  it, whose column names are the fields of the file's first line.
\<close>

datatype source = NoFile | Malformed | Csv dataframe

fun read_csv :: "source \<Rightarrow> nat \<Rightarrow> dataframe result" where
  "read_csv NoFile lno = Inl (FileNotFoundError, lno)"
| "read_csv Malformed lno = Inl (ParserError, lno)"
| "read_csv (Csv df) lno = Inr df"

text \<open>
  \<open>DataFrame.duplicated(keep='first')\<close>: a row is marked when an equal row was seen
  before it (absent cells compare equal to each other).
\<close>

fun duplicated_from :: "'a list \<Rightarrow> 'a list \<Rightarrow> bool list" where
  "duplicated_from seen [] = []"
| "duplicated_from seen (r # rs) = (r \<in> set seen) # duplicated_from (r # seen) rs"

definition duplicated :: "dataframe \<Rightarrow> bool list" where
  "duplicated df = duplicated_from [] (rows df)"

text \<open>
  \<open>df['age'] < 16\<close> on an object column compares a text cell with an integer, which
  raises TypeError; absent cells are skipped.
\<close>

fun compare_scalar :: "column \<Rightarrow> nat \<Rightarrow> unit result" where
  "compare_scalar (NumCol xs) lno = Inr ()"
| "compare_scalar (ObjectCol xs) lno = (if \<exists>x \<in> set xs. x \<noteq> None then Inl (TypeError, lno) else Inr ())"


text \<open>The exploration only prints; what the model keeps of it is where it can raise.\<close>

definition explore :: "dataframe \<Rightarrow> unit result" where
  "explore df =
     seq (if (\<exists>b \<in> set (duplicated df). b) then seq (getitem df ''student_id'' 90) (\<lambda>_. Inr ()) else Inr ()) (\<lambda>_.
     seq (getitem df ''gender'' 96) (\<lambda>_.
     seq (getitem df ''final_grade'' 96) (\<lambda>_.
     seq (getitem df ''department'' 96) (\<lambda>_.
     seq (getitem df ''assignment_score'' 101) (\<lambda>_.
     seq (getitem df ''exam_score'' 101) (\<lambda>_.
     seq (getitem df ''age'' 109) (\<lambda>age.
     seq (compare_scalar age 110) (\<lambda>_.
     seq (getitem df ''student_id'' 110) (\<lambda>_.
     seq (getitem df ''attendance'' 113) (\<lambda>_. Inr ()))))))))))"

subsection \<open>Text cells: \<open>str.strip\<close>, \<open>str.lower\<close>, \<open>str.title\<close>\<close>

definition is_space :: "char \<Rightarrow> bool" where
  "is_space c = (let n = of_char c :: nat in (9 \<le> n \<and> n \<le> 13) \<or> (28 \<le> n \<and> n \<le> 32))"

definition is_upper :: "char \<Rightarrow> bool" where
  "is_upper c = (let n = of_char c :: nat in 65 \<le> n \<and> n \<le> 90)"

definition is_lower :: "char \<Rightarrow> bool" where
  "is_lower c = (let n = of_char c :: nat in 97 \<le> n \<and> n \<le> 122)"

definition to_lower :: "char \<Rightarrow> char" where
  "to_lower c = (if is_upper c then char_of (of_char c + (32 :: nat)) else c)"

definition to_upper :: "char \<Rightarrow> char" where
  "to_upper c = (if is_lower c then char_of (of_char c - (32 :: nat)) else c)"

definition strip :: "string \<Rightarrow> string" where
  "strip s = rev (dropWhile is_space (rev (dropWhile is_space s)))"

definition lower :: "string \<Rightarrow> string" where
  "lower s = map to_lower s"

text \<open>
  \<open>str.title\<close>: a character that follows a cased character is lowercased, any other is
  uppercased; words are runs of letters, not runs of non-blank characters.
\<close>

fun title_from :: "bool \<Rightarrow> string \<Rightarrow> string" where
  "title_from prev [] = []"
| "title_from prev (c # cs) =
     (if prev then to_lower c else to_upper c) # title_from (is_upper c \<or> is_lower c) cs"

definition title :: "string \<Rightarrow> string" where
  "title s = title_from False s"

fun astype_str :: "(real \<Rightarrow> string) \<Rightarrow> column \<Rightarrow> string list" where
  "astype_str f (ObjectCol xs) = map (\<lambda>x. case x of None \<Rightarrow> ''nan'' | Some s \<Rightarrow> s) xs"
| "astype_str f (NumCol xs) = map (\<lambda>x. case x of None \<Rightarrow> ''nan'' | Some v \<Rightarrow> f v) xs"

subsection \<open>Numeric cells: median, mode, rounding\<close>

fun present :: "'a option list \<Rightarrow> 'a list" where
  "present [] = []"
| "present (None # xs) = present xs"
| "present (Some x # xs) = x # present xs"

text \<open>\<open>Series.median()\<close> skips absent cells and is NaN when none is present.\<close>

definition median :: "real option list \<Rightarrow> real option" where
  "median xs =
     (let ys = sort (present xs); n = length ys
      in if n = 0 then None
         else if odd n then Some (ys ! (n div 2))
         else Some ((ys ! (n div 2 - 1) + ys ! (n div 2)) / 2))"

text \<open>
  \<open>Series.mode()\<close> drops absent cells, counts each distinct value, keeps the values
  whose count is the largest and returns them sorted.
\<close>

definition modes :: "'a::linorder list \<Rightarrow> 'a list" where
  "modes xs =
     (let vs = remdups xs; best = fold max (map (count_list xs) vs) 0
      in sort (filter (\<lambda>v. count_list xs v = best) vs))"

definition fillna :: "'a option \<Rightarrow> 'a option list \<Rightarrow> 'a option list" where
  "fillna v xs = map (\<lambda>x. case x of None \<Rightarrow> v | Some y \<Rightarrow> Some y) xs"

text \<open>\<open>Series.round()\<close> rounds half to even.\<close>

definition round_half_even :: "real \<Rightarrow> int" where
  "round_half_even x =
     (let f = \<lfloor>x\<rfloor>; d = x - of_int f
      in if d < 1 / 2 then f else if 1 / 2 < d then f + 1 else if even f then f else f + 1)"


subsection \<open>Task 4: the cleaning stages (lines 124 to 166)\<close>

text \<open>Line 124: \<open>df.drop_duplicates(keep='first').reset_index(drop=True)\<close>.\<close>

definition drop_duplicates :: "dataframe \<Rightarrow> dataframe" where
  "drop_duplicates df =
     (let keep = map Not (duplicated df) in map (\<lambda>(n, c). (n, mask_col keep c)) df)"

text \<open>
  Lines 128 to 130: for every object column, \<open>df[col].replace(missing_markers, np.nan)\<close>.
  The argument \<open>np.nan\<close> is evaluated before \<open>replace\<close> is called.
\<close>

definition missing_markers :: "string list" where
  "missing_markers = [''-'', ''N/A'', ''NA'', ''null'', ''missing'', ''None'', []]"

definition select_dtypes_object :: "dataframe \<Rightarrow> string list" where
  "select_dtypes_object df = map fst (filter (\<lambda>(n, c). is_object c) df)"

fun replace_list :: "string list \<Rightarrow> column \<Rightarrow> column" where
  "replace_list ms (ObjectCol xs) =
     ObjectCol (map (\<lambda>x. case x of None \<Rightarrow> None | Some s \<Rightarrow> if s \<in> set ms then None else Some s) xs)"
| "replace_list ms (NumCol xs) = NumCol xs"

fun replace_loop :: "string list \<Rightarrow> dataframe \<Rightarrow> dataframe result" where
  "replace_loop [] df = Inr df"
| "replace_loop (c # cs) df =
     seq (getitem df c 130) (\<lambda>col.
     seq (name_ref ''np'' 130) (\<lambda>_.
     replace_loop cs (setitem df c (replace_list missing_markers col))))"

definition replace_missing :: "dataframe \<Rightarrow> dataframe result" where
  "replace_missing df = replace_loop (select_dtypes_object df) df"

text \<open>Lines 133 and 134: \<open>pd.to_numeric(df[col], errors='coerce')\<close> for the two score columns.\<close>

fun to_numeric :: "(string \<Rightarrow> real option) \<Rightarrow> column \<Rightarrow> column" where
  "to_numeric p (ObjectCol xs) = NumCol (map (\<lambda>x. case x of None \<Rightarrow> None | Some s \<Rightarrow> p s) xs)"
| "to_numeric p (NumCol xs) = NumCol xs"

fun for_cols :: "string list \<Rightarrow> nat \<Rightarrow> (string \<Rightarrow> column \<Rightarrow> column) \<Rightarrow> dataframe \<Rightarrow> dataframe result" where
  "for_cols [] lno f df = Inr df"
| "for_cols (c # cs) lno f df =
     seq (getitem df c lno) (\<lambda>col. for_cols cs lno f (setitem df c (f c col)))"

definition convert_scores :: "pylib \<Rightarrow> dataframe \<Rightarrow> dataframe result" where
  "convert_scores lib df =
     for_cols [''assignment_score'', ''exam_score''] 134 (\<lambda>c. to_numeric (to_float lib)) df"

text \<open>
  Lines 140 to 146: \<open>fillna(median())\<close> for four columns, \<open>fillna(mode()[0])\<close> for two.
  The median of an object column that holds text raises TypeError; \<open>mode()[0]\<close> raises
  KeyError when \<open>mode()\<close> is empty.
\<close>

fun fill_median :: "column \<Rightarrow> nat \<Rightarrow> column result" where
  "fill_median (NumCol xs) lno = Inr (NumCol (fillna (median xs) xs))"
| "fill_median (ObjectCol xs) lno =
     (if present xs \<noteq> [] then Inl (TypeError, lno) else Inr (ObjectCol xs))"

fun fill_mode :: "column \<Rightarrow> nat \<Rightarrow> column result" where
  "fill_mode (ObjectCol xs) lno =
     (case modes (present xs) of
        [] \<Rightarrow> Inl (KeyError ''0'', lno)
      | m # rest \<Rightarrow> Inr (ObjectCol (fillna (Some m) xs)))"
| "fill_mode (NumCol xs) lno =
     (case modes (present xs) of
        [] \<Rightarrow> Inl (KeyError ''0'', lno)
      | m # rest \<Rightarrow> Inr (NumCol (fillna (Some m) xs)))"

definition assign :: "dataframe \<Rightarrow> string \<Rightarrow> nat \<Rightarrow> (column \<Rightarrow> nat \<Rightarrow> column result) \<Rightarrow> dataframe result" where
  "assign df c lno f = seq (getitem df c lno) (\<lambda>col. seq (f col lno) (\<lambda>v. Inr (setitem df c v)))"

definition impute :: "dataframe \<Rightarrow> dataframe result" where
  "impute df =
     seq (assign df ''age'' 140 fill_median) (\<lambda>df.
     seq (assign df ''attendance'' 141 fill_median) (\<lambda>df.
     seq (assign df ''assignment_score'' 142 fill_median) (\<lambda>df.
     seq (assign df ''exam_score'' 143 fill_median) (\<lambda>df.
     seq (assign df ''gender'' 145 fill_mode) (\<lambda>df.
     assign df ''department'' 146 fill_mode)))))"

text \<open>
  Lines 151 to 156: \<open>astype(str).str.strip().str.lower().str.title()\<close> for three
  columns, then \<open>replace(gender_mapping)\<close> on \<open>gender\<close>.
\<close>

definition standardize_text :: "string \<Rightarrow> string" where
  "standardize_text s = title (lower (strip s))"

definition gender_mapping :: "(string \<times> string) list" where
  "gender_mapping = [(''M'', ''Male''), (''F'', ''Female''), (''Male'', ''Male''), (''Female'', ''Female'')]"

definition replace_dict :: "(string \<times> string) list \<Rightarrow> string \<Rightarrow> string" where
  "replace_dict d s = (case map_of d s of None \<Rightarrow> s | Some v \<Rightarrow> v)"

fun replace_col :: "(string \<times> string) list \<Rightarrow> column \<Rightarrow> nat \<Rightarrow> column result" where
  "replace_col d (ObjectCol xs) lno = Inr (ObjectCol (map (map_option (replace_dict d)) xs))"
| "replace_col d (NumCol xs) lno = Inr (NumCol xs)"

definition standardize :: "pylib \<Rightarrow> dataframe \<Rightarrow> dataframe result" where
  "standardize lib df =
     seq (for_cols [''gender'', ''department'', ''final_grade''] 152
            (\<lambda>c col. ObjectCol (map (\<lambda>s. Some (standardize_text s)) (astype_str (num_str lib c) col))) df) (\<lambda>df.
     assign df ''gender'' 156 (replace_col gender_mapping))"

text \<open>
  Lines 159 to 161: \<open>round().astype('Int64')\<close>, the median of the result, then
  \<open>np.where\<close>, whose name \<open>np\<close> is looked up before its arguments are evaluated.
  In a run of the script no object column gets here (line 130 raises first); for a text
  cell the conversion to \<open>Int64\<close> is taken to raise TypeError.
\<close>

fun round_int64 :: "column \<Rightarrow> nat \<Rightarrow> real option list result" where
  "round_int64 (NumCol xs) lno = Inr (map (map_option (\<lambda>v. of_int (round_half_even v))) xs)"
| "round_int64 (ObjectCol xs) lno =
     (if present xs \<noteq> [] then Inl (TypeError, lno) else Inr (map (\<lambda>x. None) xs))"

definition np_where_age :: "real option \<Rightarrow> real option list \<Rightarrow> real option list" where
  "np_where_age m xs =
     map (\<lambda>a. case a of None \<Rightarrow> None | Some v \<Rightarrow> if v < 16 \<or> 40 < v then m else Some v) xs"

definition age_to_int :: "dataframe \<Rightarrow> dataframe result" where
  "age_to_int df =
     seq (getitem df ''age'' 159) (\<lambda>col.
     seq (round_int64 col 159) (\<lambda>ages.
     seq (Inr (setitem df ''age'' (NumCol ages))) (\<lambda>df.
     seq (Inr (median ages)) (\<lambda>median_age.
     seq (name_ref ''np'' 161) (\<lambda>_.
     Inr (setitem df ''age'' (NumCol (np_where_age median_age ages))))))))"

text \<open>
  Lines 164 to 166: \<open>np.clip(df[c], 0, 100)\<close> for three columns; the name \<open>np\<close> is
  looked up first. Comparing a text cell with the bounds is taken to raise TypeError.
\<close>

fun np_clip :: "real \<Rightarrow> real \<Rightarrow> column \<Rightarrow> nat \<Rightarrow> column result" where
  "np_clip lo hi (NumCol xs) lno = Inr (NumCol (map (map_option (\<lambda>v. min hi (max lo v))) xs))"
| "np_clip lo hi (ObjectCol xs) lno =
     (if present xs \<noteq> [] then Inl (TypeError, lno) else Inr (ObjectCol xs))"

definition clip_col :: "dataframe \<Rightarrow> string \<Rightarrow> nat \<Rightarrow> dataframe result" where
  "clip_col df c lno =
     seq (name_ref ''np'' lno) (\<lambda>_.
     seq (getitem df c lno) (\<lambda>col.
     seq (np_clip 0 100 col lno) (\<lambda>v. Inr (setitem df c v))))"

definition bound_numeric :: "dataframe \<Rightarrow> dataframe result" where
  "bound_numeric df =
     seq (clip_col df ''attendance'' 164) (\<lambda>df.
     seq (clip_col df ''assignment_score'' 165) (\<lambda>df.
     clip_col df ''exam_score'' 166))"

subsection \<open>The pipeline and the script\<close>

definition task4 :: "pylib \<Rightarrow> dataframe \<Rightarrow> dataframe result" where
  "task4 lib df =
     seq (Inr (drop_duplicates df)) (\<lambda>df.
     seq (replace_missing df) (\<lambda>df.
     seq (convert_scores lib df) (\<lambda>df.
     seq (impute df) (\<lambda>df.
     seq (standardize lib df) (\<lambda>df.
     seq (age_to_int df) (\<lambda>df.
     bound_numeric df))))))"

text \<open>
  The whole script: both loads, the exploration, the cleaning, and line 186,
  \<open>df.to_csv(clean_filename, index=False)\<close>. The result \<open>Inr df\<close> is the frame written to
  the output file; \<open>Inl\<close> means that the script stopped before line 186 and wrote nothing.
\<close>

definition script :: "pylib \<Rightarrow> source \<Rightarrow> dataframe result" where
  "script lib src =
     seq (read_csv src 10) (\<lambda>df_raw.
     seq (read_csv src 61) (\<lambda>df.
     seq (explore df) (\<lambda>_.
     seq (task4 lib df) (\<lambda>df. Inr df))))"

subsection \<open>Example tables\<close>

text \<open>
  A table as \<open>read_csv\<close> returns it for a file with text fields: rows 0 and 1 are
  identical, row 2 differs.
\<close>

definition text_frame :: dataframe where
  "text_frame =
     [(''student_id'', ObjectCol [Some ''S001'', Some ''S001'', Some ''S002'']),
      (''age'', NumCol [Some 20, Some 20, Some 45]),
      (''gender'', ObjectCol [Some ''M'', Some ''M'', Some '' female '']),
      (''attendance'', NumCol [Some 105, Some 105, Some (- 5)]),
      (''assignment_score'', ObjectCol [Some ''80'', Some ''80'', Some ''abc'']),
      (''exam_score'', NumCol [Some 70, Some 70, Some 64]),
      (''final_grade'', ObjectCol [Some ''a'', Some ''a'', Some ''B '']),
      (''department'', ObjectCol [Some ''cs'', Some ''cs'', Some ''IT''])]"

definition spec_frame :: dataframe where
  "spec_frame =
     [(''student_id'', ObjectCol [Some ''S001'', Some ''S002'', Some ''S003'', Some ''S004'']),
      (''age'', NumCol [Some 10, Some 45, Some 20, Some 22]),
      (''gender'', ObjectCol [Some ''M'', Some '' female '', Some ''MALE'', Some ''Other'']),
      (''attendance'', NumCol [Some 105, Some (- 5), Some 50, Some 80]),
      (''assignment_score'', NumCol [Some 80, Some 75, Some 60, Some 90]),
      (''exam_score'', NumCol [Some 70, Some 65, Some 55, Some 88]),
      (''final_grade'', ObjectCol [Some ''a'', Some ''B '', Some '' c'', Some ''A'']),
      (''department'', ObjectCol [Some ''cs'', Some ''IT'', Some '' it '', Some ''CS''])]"

text \<open>
  A file whose fields are all numbers or empty has no object column: \<open>age\<close> is empty
  in every row, \<open>gender\<close>, \<open>final_grade\<close> and \<open>department\<close> are coded as integers.
\<close>

definition numeric_frame :: dataframe where
  "numeric_frame =
     [(''student_id'', NumCol [Some 1, Some 2]),
      (''age'', NumCol [None, None]),
      (''gender'', NumCol [Some 1, Some 0]),
      (''attendance'', NumCol [Some 105, Some (- 5)]),
      (''assignment_score'', NumCol [Some 80, Some 75]),
      (''exam_score'', NumCol [Some 70, Some 65]),
      (''final_grade'', NumCol [Some 1, Some 2]),
      (''department'', NumCol [Some 3, Some 3])]"

text \<open>A file coded in numbers throughout, with the ages and attendances of the specification's examples.\<close>

definition coded_frame :: dataframe where
  "coded_frame =
     [(''student_id'', NumCol [Some 1, Some 2, Some 3, Some 4]),
      (''age'', NumCol [Some 10, Some 45, Some 20, Some 22]),
      (''gender'', NumCol [Some 1, Some 0, Some 1, Some 0]),
      (''attendance'', NumCol [Some 105, Some (- 5), Some 50, Some 80]),
      (''assignment_score'', NumCol [Some 80, Some 75, Some 60, Some 90]),
      (''exam_score'', NumCol [Some 70, Some 65, Some 55, Some 88]),
      (''final_grade'', NumCol [Some 1, Some 2, Some 3, Some 1]),
      (''department'', NumCol [Some 3, Some 3, Some 4, Some 4])]"

text \<open>
  A coded file in which the two values of \<open>gender\<close> occur once each and one row has
  no gender.
\<close>

definition coded_tie_frame :: dataframe where
  "coded_tie_frame =
     [(''student_id'', NumCol [Some 1, Some 2, Some 3]),
      (''age'', NumCol [Some 20, Some 21, Some 22]),
      (''gender'', NumCol [Some 1, Some 0, None]),
      (''attendance'', NumCol [Some 90, Some 85, Some 70]),
      (''assignment_score'', NumCol [Some 80, Some 75, Some 60]),
      (''exam_score'', NumCol [Some 70, Some 65, Some 55]),
      (''final_grade'', NumCol [Some 1, Some 2, Some 3]),
      (''department'', NumCol [Some 3, Some 3, Some 4])]"

text \<open>A table with text in \<open>attendance\<close> and a tie between the two values of \<open>gender\<close>.\<close>

definition raw_frame :: dataframe where
  "raw_frame =
     [(''student_id'', ObjectCol [Some ''S001'', Some ''S002'', Some ''S003'']),
      (''age'', NumCol [Some 20, Some 21, Some 22]),
      (''gender'', ObjectCol [Some ''Male'', Some ''Female'', None]),
      (''attendance'', ObjectCol [Some ''85%'', Some ''90'', Some ''70'']),
      (''assignment_score'', ObjectCol [Some ''80'', Some ''abc'', Some ''75'']),
      (''exam_score'', NumCol [Some 70, Some 65, Some 60]),
      (''final_grade'', ObjectCol [Some ''A'', Some ''B'', Some ''C'']),
      (''department'', ObjectCol [Some ''CS'', Some ''CS'', Some ''IT''])]"


text \<open>
  An instance of the two runtime parameters for the examples: the parser reads a
  non-empty run of decimal digits and rejects everything else; the rendering writes a
  whole number in decimal digits, as \<open>str\<close> does for a cell of an \<open>int64\<close> column.
\<close>

definition is_digit :: "char \<Rightarrow> bool" where
  "is_digit c = (let n = of_char c :: nat in 48 \<le> n \<and> n \<le> 57)"

definition parse_digits :: "string \<Rightarrow> real option" where
  "parse_digits s =
     (if s \<noteq> [] \<and> list_all is_digit s
      then Some (of_nat (foldl (\<lambda>n c. 10 * n + (of_char c - 48)) 0 s))
      else None)"

function str_nat :: "nat \<Rightarrow> string" where
  "str_nat n = (if n < 10 then [char_of (48 + n)] else str_nat (n div 10) @ [char_of (48 + n mod 10)])"
  by pat_completeness auto
termination
  by (relation "measure id") auto

definition str_int :: "int \<Rightarrow> string" where
  "str_int i = (if i < 0 then CHR ''-'' # str_nat (nat (- i)) else str_nat (nat i))"

definition demo_lib :: pylib where
  "demo_lib = \<lparr>to_float = parse_digits, num_str = (\<lambda>c v. str_int \<lfloor>v\<rfloor>)\<rparr>"

text \<open>
  The tie-break rule of the specification, for comparison with \<open>modes\<close>: the first
  value, in table order, among those of the largest frequency.
\<close>

definition spec_first_mode :: "'a list \<Rightarrow> 'a option" where
  "spec_first_mode xs = find (\<lambda>v. \<forall>w \<in> set xs. count_list xs w \<le> count_list xs v) xs"

fun all_absent :: "column \<Rightarrow> bool" where
  "all_absent (ObjectCol xs) = (present xs = [])"
| "all_absent (NumCol xs) = (present xs = [])"

section \<open>Properties\<close>

subsection \<open>Sequencing, names, indexing\<close>

lemma seq_Inl [simp]: "seq (Inl e) f = Inl e"
  by (simp add: seq_def)

lemma seq_Inr [simp]: "seq (Inr x) f = f x"
  by (simp add: seq_def)

lemma seq_eq_Inr: "seq m f = Inr y \<Longrightarrow> \<exists>x. m = Inr x \<and> f x = Inr y"
  by (cases m) simp_all


lemma name_ref_np [simp]: "name_ref ''np'' l = Inl (NameError ''np'', l)"
  by (simp add: name_ref_def imported_def)

lemma getitem_Some: "map_of df c = Some col \<Longrightarrow> getitem df c l = Inr col"
  by (simp add: getitem_def)

lemma getitem_None: "map_of df c = None \<Longrightarrow> getitem df c l = Inl (KeyError c, l)"
  by (simp add: getitem_def)


lemma map_of_setitem: "map_of (setitem df c v) c' = (if c' = c then Some v else map_of df c')"
  by (induction df c v rule: setitem.induct) auto

subsection \<open>Duplicate elimination\<close>

lemma select_Nil [simp]: "select bs [] = []" "select [] xs = []"
  by (simp_all add: select_def)

lemma select_Cons [simp]:
  "select (b # bs) (x # xs) = (if b then x # select bs xs else select bs xs)"
  by (simp add: select_def)

lemma select_map: "select bs (map f xs) = map f (select bs xs)"
  by (induction bs xs rule: list_induct2') simp_all

lemma select_nth: "select bs xs = map ((!) xs) (select bs [0..<length xs])"
proof -
  have "select bs xs = select bs (map ((!) xs) [0..<length xs])"
    by (simp add: map_nth)
  then show ?thesis
    by (simp only: select_map)
qed

lemma col_len_cells: "col_len c = length (cells c)"
  by (cases c) simp_all

lemma cells_mask_col: "cells (mask_col bs c) = select bs (cells c)"
  by (cases c) (simp_all add: select_map)

lemma rows_Nil: "rows [] = []"
  by (simp add: rows_def nrows_def)

lemma nrows_Cons: "nrows ((n, c) # rest) = length (cells c)"
  by (simp add: nrows_def col_len_cells)

lemma length_rows: "length (rows df) = nrows df"
  by (simp add: rows_def)

lemma rows_nth: "i < nrows df \<Longrightarrow> rows df ! i = row_at df i"
  by (simp add: rows_def)

text \<open>Masking every column with the same mask masks the rows.\<close>

lemma rows_mask_frame:
  assumes wf: "wf_frame df"
  shows "rows (map (\<lambda>(n, c). (n, mask_col bs c)) df) = select bs (rows df)"
proof (cases df)
  case Nil
  then show ?thesis by (simp add: rows_Nil)
next
  case (Cons p rest)
  obtain n0 c0 where p: "p = (n0, c0)" by (cases p)
  define N where "N = nrows df"
  define idx where "idx = select bs [0..<N]"
  define df' where "df' = map (\<lambda>(n, c). (n, mask_col bs c)) df"
  have len: "length (cells c) = N" if "(n, c) \<in> set df" for n c
    using wf that by (auto simp: wf_frame_def N_def col_len_cells)
  have sel: "select bs (cells c) = map ((!) (cells c)) idx" if "(n, c) \<in> set df" for n c
    using select_nth [of bs "cells c"] len [OF that] by (simp add: idx_def)
  have "(n0, c0) \<in> set df" using Cons p by simp
  then have n': "nrows df' = length idx"
    using sel [of n0 c0] Cons p by (simp add: df'_def nrows_Cons cells_mask_col)
  have row: "row_at df' k = row_at df (idx ! k)" if k: "k < length idx" for k
  proof -
    have "row_at df' k = map (\<lambda>(n, c). select bs (cells c) ! k) df"
      by (simp add: row_at_def df'_def cells_mask_col comp_def case_prod_unfold)
    also have "\<dots> = map (\<lambda>(n, c). cells c ! (idx ! k)) df"
    proof (rule map_cong [OF refl])
      fix x assume x: "x \<in> set df"
      obtain n c where nc: "x = (n, c)" by (cases x)
      have "select bs (cells c) ! k = map ((!) (cells c)) idx ! k"
        using sel [of n c] x nc by simp
      then show "(case x of (n, c) \<Rightarrow> select bs (cells c) ! k) = (case x of (n, c) \<Rightarrow> cells c ! (idx ! k))"
        using k nc by simp
    qed
    finally show ?thesis by (simp add: row_at_def)
  qed
  have "rows df' = map (\<lambda>k. row_at df (idx ! k)) [0..<length idx]"
    unfolding rows_def n' using row by simp
  also have "\<dots> = map (row_at df) idx"
    by (rule nth_equalityI) simp_all
  also have "\<dots> = select bs (rows df)"
    by (simp add: rows_def select_map idx_def N_def)
  finally show ?thesis by (simp add: df'_def)
qed

lemma rows_drop_duplicates:
  "wf_frame df \<Longrightarrow> rows (drop_duplicates df) = select (map Not (duplicated df)) (rows df)"
  by (simp add: drop_duplicates_def rows_mask_frame)

lemma All_less_Suc_shift: "(\<forall>j<Suc i. P j) = (P 0 \<and> (\<forall>j<i. P (Suc j)))"
  by (metis less_Suc_eq_0_disj Suc_less_eq zero_less_Suc)

text \<open>The rows that the hash-table pass keeps are those with no equal row before them.\<close>

lemma kept_indices:
  "select (map Not (duplicated_from seen rs)) [0..<length rs] =
     filter (\<lambda>i. rs ! i \<notin> set seen \<and> (\<forall>j<i. rs ! j \<noteq> rs ! i)) [0..<length rs]"
proof (induction rs arbitrary: seen)
  case Nil
  then show ?case by simp
next
  case (Cons r rs)
  have upt: "[0..<length (r # rs)] = 0 # map Suc [0..<length rs]"
    by (simp add: upt_conv_Cons map_Suc_upt del: upt_Suc)
  have "select (map Not (duplicated_from (r # seen) rs)) (map Suc [0..<length rs]) =
        map Suc (filter (\<lambda>i. rs ! i \<notin> set (r # seen) \<and> (\<forall>j<i. rs ! j \<noteq> rs ! i)) [0..<length rs])"
    by (simp only: select_map Cons.IH)
  also have "\<dots> = filter (\<lambda>i. (r # rs) ! i \<notin> set seen \<and> (\<forall>j<i. (r # rs) ! j \<noteq> (r # rs) ! i)) (map Suc [0..<length rs])"
    by (auto simp: filter_map comp_def All_less_Suc_shift intro!: arg_cong [where f = "map Suc"] filter_cong)
  finally show ?case
    unfolding upt by simp
qed

lemma rows_drop_duplicates_idx:
  assumes "wf_frame df"
  shows "rows (drop_duplicates df) =
         map (row_at df) (filter (\<lambda>i. \<forall>j<i. row_at df j \<noteq> row_at df i) [0..<nrows df])"
proof -
  have "select (map Not (duplicated df)) [0..<nrows df] =
        filter (\<lambda>i. \<forall>j<i. rows df ! j \<noteq> rows df ! i) [0..<nrows df]"
    using kept_indices [of "[]" "rows df"] by (simp add: duplicated_def length_rows)
  also have "\<dots> = filter (\<lambda>i. \<forall>j<i. row_at df j \<noteq> row_at df i) [0..<nrows df]"
    by (rule filter_cong) (auto simp: rows_nth)
  finally have idx: "select (map Not (duplicated df)) [0..<nrows df] =
        filter (\<lambda>i. \<forall>j<i. row_at df j \<noteq> row_at df i) [0..<nrows df]" .
  have "rows (drop_duplicates df) = select (map Not (duplicated df)) (rows df)"
    using assms by (rule rows_drop_duplicates)
  also have "\<dots> = map (row_at df) (select (map Not (duplicated df)) [0..<nrows df])"
    by (simp only: rows_def select_map)
  finally have "rows (drop_duplicates df) = map (row_at df) (select (map Not (duplicated df)) [0..<nrows df])" .
  then show ?thesis by (simp only: idx)
qed

lemma upt_3: "[0..<3] = [0, 1, 2]"
  by (simp add: upt_rec)

text \<open>
  Claim C7. Line 124 removes exactly the rows that equal an earlier row in every column:
  the rows of the result are the rows of the input at the positions that have no equal
  row before them, in their original order, so the first copy of every group stays. In
  a table of three rows of which two (at positions \<open>i < j\<close>) are equal and the third
  differs, the result has one row fewer and the row dropped is the later copy, \<open>j\<close>.
\<close>

theorem drop_duplicates_keeps_first:
  assumes "wf_frame df"
  shows "rows (drop_duplicates df) =
           map (row_at df) (filter (\<lambda>i. \<forall>j<i. row_at df j \<noteq> row_at df i) [0..<nrows df])
       \<and> (\<forall>i j k. nrows df = 3 \<and> i < j \<and> j < 3 \<and> k < 3 \<and> k \<noteq> i \<and> k \<noteq> j
              \<and> row_at df i = row_at df j \<and> row_at df k \<noteq> row_at df i
            \<longrightarrow> length (rows (drop_duplicates df)) = nrows df - 1
              \<and> rows (drop_duplicates df) = map (row_at df) (filter (\<lambda>x. x \<noteq> j) [0..<3]))"
proof (intro conjI allI impI)
  show "rows (drop_duplicates df) =
           map (row_at df) (filter (\<lambda>i. \<forall>j<i. row_at df j \<noteq> row_at df i) [0..<nrows df])"
    using assms by (rule rows_drop_duplicates_idx)
next
  fix i j k :: nat
  assume h: "nrows df = 3 \<and> i < j \<and> j < 3 \<and> k < 3 \<and> k \<noteq> i \<and> k \<noteq> j
              \<and> row_at df i = row_at df j \<and> row_at df k \<noteq> row_at df i"
  then consider "i = 0 \<and> j = 1 \<and> k = 2" | "i = 0 \<and> j = 2 \<and> k = 1" | "i = 1 \<and> j = 2 \<and> k = 0"
    by linarith
  then have "filter (\<lambda>i. \<forall>j<i. row_at df j \<noteq> row_at df i) [0..<3] = filter (\<lambda>x. x \<noteq> j) [0..<3]"
    using h by cases (auto simp: upt_3 less_Suc_eq numeral_2_eq_2)
  then have r: "rows (drop_duplicates df) = map (row_at df) (filter (\<lambda>x. x \<noteq> j) [0..<3])"
    using rows_drop_duplicates_idx [OF assms] h by simp
  show "rows (drop_duplicates df) = map (row_at df) (filter (\<lambda>x. x \<noteq> j) [0..<3])"
    by (rule r)
  show "length (rows (drop_duplicates df)) = nrows df - 1"
    using h unfolding r by (auto simp: upt_3)
qed

theorem drop_duplicates_keeps_first_witness:
  "wf_frame text_frame \<and> nrows text_frame = 3
   \<and> row_at text_frame 0 = row_at text_frame 1 \<and> row_at text_frame 2 \<noteq> row_at text_frame 0
   \<and> length (rows (drop_duplicates text_frame)) = 2
   \<and> rows (drop_duplicates text_frame) = [row_at text_frame 0, row_at text_frame 2]"
proof -
  have wf: "wf_frame text_frame"
    by (simp add: wf_frame_def text_frame_def nrows_def)
  have h: "nrows text_frame = 3 \<and> (0::nat) < 1 \<and> (1::nat) < 3 \<and> (2::nat) < 3 \<and> (2::nat) \<noteq> 0 \<and> (2::nat) \<noteq> 1
           \<and> row_at text_frame 0 = row_at text_frame 1 \<and> row_at text_frame 2 \<noteq> row_at text_frame 0"
    by (simp add: text_frame_def nrows_def row_at_def)
  from drop_duplicates_keeps_first [OF wf] h
  have "length (rows (drop_duplicates text_frame)) = nrows text_frame - 1
      \<and> rows (drop_duplicates text_frame) = map (row_at text_frame) (filter (\<lambda>x. x \<noteq> 1) [0..<3])"
    by blast
  then have "length (rows (drop_duplicates text_frame)) = 2
      \<and> rows (drop_duplicates text_frame) = [row_at text_frame 0, row_at text_frame 2]"
    using h by (simp add: upt_3)
  with wf h show ?thesis
    by blast
qed

subsection \<open>The unbound name \<open>np\<close>\<close>

lemma is_object_mask_col [simp]: "is_object (mask_col bs c) = is_object c"
  by (cases c) simp_all









text \<open>Without an object column the loop body of line 130 never runs, and line 161 raises.\<close>

lemma age_to_int_raises: "age_to_int df \<noteq> Inr out"
  by (auto simp: age_to_int_def dest!: seq_eq_Inr)

lemma clip_col_raises [simp]: "clip_col df c l = Inl (NameError ''np'', l)"
  by (simp add: clip_col_def)

lemma bound_numeric_raises: "bound_numeric df = Inl (NameError ''np'', 164)"
  by (simp add: bound_numeric_def)

lemma task4_never_completes: "task4 lib df \<noteq> Inr out"
  by (auto simp: task4_def age_to_int_raises dest!: seq_eq_Inr)

lemma script_never_writes: "script lib src \<noteq> Inr out"
  by (auto simp: script_def task4_never_completes dest!: seq_eq_Inr)

text \<open>
  Claim C5. The age correction of lines 159 to 161 is written with \<open>np.where\<close>. On
  the ages 10, 45, 20, 22 of the specification's example the stage raises NameError at
  line 161 and replaces nothing; the script with these ages stops at line 161 when the
  file is coded in numbers, and already at line 130 when it has a text column. On no
  table does the stage return.
\<close>

theorem age_correction_raises:
  "age_to_int coded_frame = Inl (NameError ''np'', 161)
   \<and> age_to_int spec_frame = Inl (NameError ''np'', 161)
   \<and> script demo_lib (Csv coded_frame) = Inl (NameError ''np'', 161)
   \<and> script demo_lib (Csv spec_frame) = Inl (NameError ''np'', 130)
   \<and> (\<forall>df out. age_to_int df \<noteq> Inr out)"
proof -
  have "age_to_int coded_frame = Inl (NameError ''np'', 161)
   \<and> age_to_int spec_frame = Inl (NameError ''np'', 161)
   \<and> script demo_lib (Csv coded_frame) = Inl (NameError ''np'', 161)
   \<and> script demo_lib (Csv spec_frame) = Inl (NameError ''np'', 130)"
    by code_simp
  then show ?thesis
    by (simp add: age_to_int_raises)
qed

text \<open>
  Claim C6. The clamping of lines 164 to 166 is written with \<open>np.clip\<close>. On the
  attendances 105, -5, 50, as on every table, the stage raises NameError at line 164 and
  clamps nothing; the script with these attendances stops before it, at line 161 or at
  line 130.
\<close>

theorem range_clamp_raises:
  "bound_numeric coded_frame = Inl (NameError ''np'', 164)
   \<and> bound_numeric spec_frame = Inl (NameError ''np'', 164)
   \<and> script demo_lib (Csv coded_frame) = Inl (NameError ''np'', 161)
   \<and> script demo_lib (Csv spec_frame) = Inl (NameError ''np'', 130)
   \<and> (\<forall>df. bound_numeric df = Inl (NameError ''np'', 164))"
proof -
  have "script demo_lib (Csv coded_frame) = Inl (NameError ''np'', 161)
   \<and> script demo_lib (Csv spec_frame) = Inl (NameError ''np'', 130)"
    by code_simp
  then show ?thesis
    by (simp add: bound_numeric_raises)
qed

subsection \<open>Loading and the header\<close>







subsection \<open>Imputation\<close>

lemma fillna_None [simp]: "fillna None xs = xs"
  by (simp add: fillna_def map_idI split: option.splits)

lemma median_all_absent: "present xs = [] \<Longrightarrow> median xs = None"
  by (simp add: median_def)

lemma count_list_pos: "x \<in> set xs \<Longrightarrow> 0 < count_list xs x"
  using count_list_0_iff [of xs x] by auto

text \<open>The largest count is attained by a value of the list and bounds every count.\<close>

lemma largest_count:
  fixes ys :: "'a list"
  assumes "ys \<noteq> []"
  shows "(\<exists>v \<in> set ys. count_list ys v = fold max (map (count_list ys) (remdups ys)) 0)
       \<and> (\<forall>w. count_list ys w \<le> fold max (map (count_list ys) (remdups ys)) 0)"
proof -
  define best where "best = fold max (map (count_list ys) (remdups ys)) 0"
  let ?C = "count_list ys ` set ys"
  have best: "best = Max (insert 0 ?C)"
    unfolding best_def using Max.set_eq_fold [of 0 "map (count_list ys) (remdups ys)"] by simp
  have fin: "finite (insert 0 ?C)" by simp
  obtain y where y: "y \<in> set ys" using assms(1) by (cases ys) auto
  then have pos: "0 < count_list ys y" by (rule count_list_pos)
  have ge: "c \<le> best" if "c \<in> insert 0 ?C" for c
    unfolding best using that fin by (intro Max_ge) auto
  have "best \<in> insert 0 ?C"
    unfolding best by (rule Max_in) auto
  moreover have "best \<noteq> 0"
    using ge [of "count_list ys y"] y pos by auto
  ultimately have "\<exists>v \<in> set ys. count_list ys v = best" by auto
  moreover have "count_list ys w \<le> best" for w
  proof (cases "w \<in> set ys")
    case True then show ?thesis using ge by auto
  next
    case False then show ?thesis by (simp add: count_list_0_iff [THEN iffD2])
  qed
  ultimately show ?thesis unfolding best_def by blast
qed

lemma modes_Nil [simp]: "modes [] = []"
  by (simp add: modes_def)

lemma modes_Cons:
  fixes ys :: "'a::linorder list"
  assumes "modes ys = m # rest"
  shows "m \<in> set ys \<and> (\<forall>w. count_list ys w \<le> count_list ys m)
       \<and> (\<forall>w. count_list ys w = count_list ys m \<longrightarrow> m \<le> w)"
proof -
  define best where "best = fold max (map (count_list ys) (remdups ys)) 0"
  define l where "l = filter (\<lambda>v. count_list ys v = best) (remdups ys)"
  have ms: "sort l = m # rest"
    using assms by (simp add: modes_def best_def l_def Let_def)
  have "ys \<noteq> []" using assms by auto
  from largest_count [OF this] have ex: "\<forall>w. count_list ys w \<le> best"
    by (simp add: best_def)
  have "m \<in> set (sort l)" using ms by simp
  then have m: "m \<in> set ys" "count_list ys m = best"
    by (auto simp: l_def)
  have "sorted (m # rest)" using ms sorted_sort [of l] by simp
  then have least: "\<forall>w \<in> set l. m \<le> w"
    using ms by (metis set_sort set_ConsD sorted_simps(2) order_refl)
  have "m \<le> w" if "count_list ys w = count_list ys m" for w
  proof -
    have "0 < count_list ys m" using m(1) by (rule count_list_pos)
    then have "w \<in> set ys" using that by (metis count_list_0_iff less_numeral_extra(3))
    then have "w \<in> set l" using that m(2) by (simp add: l_def)
    then show ?thesis using least by blast
  qed
  then show ?thesis using m ex by auto
qed

lemma modes_eq_Nil_iff: "modes ys = [] \<longleftrightarrow> ys = []"
proof
  assume e: "modes ys = []"
  show "ys = []"
  proof (rule ccontr)
    assume ne: "ys \<noteq> []"
    from largest_count [OF ne] obtain v where "v \<in> set ys"
      "count_list ys v = fold max (map (count_list ys) (remdups ys)) 0" by blast
    then have "v \<in> set (modes ys)" by (simp add: modes_def Let_def)
    with e show False by simp
  qed
qed simp

lemma assign_Some:
  "map_of df c = Some col \<Longrightarrow> assign df c l f = seq (f col l) (\<lambda>v. Inr (setitem df c v))"
  by (simp add: assign_def getitem_def)

lemma fill_mode_absent: "all_absent col \<Longrightarrow> fill_mode col l = Inl (KeyError ''0'', l)"
  by (cases col) simp_all

lemma fill_mode_present:
  "\<not> all_absent col \<Longrightarrow> \<exists>v. fill_mode col l = Inr v"
  by (cases col) (auto simp: modes_eq_Nil_iff split: list.splits)

text \<open>
  Claim C3, as amended. With the four numeric columns of numeric dtype at imputation
  time: when \<open>gender\<close> is entirely absent, line 145 raises KeyError (\<open>mode()\<close> is
  empty) and the imputation stops; when \<open>department\<close> is, line 146 does. An entirely
  absent numeric column raises nothing: its median is NaN, \<open>fillna\<close> leaves every cell
  absent, and the imputation completes with the column as it was.
\<close>

theorem impute_entirely_absent:
  assumes "map_of df ''age'' = Some (NumCol a)" "map_of df ''attendance'' = Some (NumCol t)"
    and "map_of df ''assignment_score'' = Some (NumCol s)" "map_of df ''exam_score'' = Some (NumCol x)"
    and "map_of df ''gender'' = Some g" "map_of df ''department'' = Some d"
  shows "(all_absent g \<longrightarrow> impute df = Inl (KeyError ''0'', 145))
       \<and> (\<not> all_absent g \<and> all_absent d \<longrightarrow> impute df = Inl (KeyError ''0'', 146))
       \<and> (\<not> all_absent g \<and> \<not> all_absent d \<longrightarrow>
            (\<exists>df'. impute df = Inr df'
               \<and> (present a = [] \<longrightarrow> map_of df' ''age'' = Some (NumCol a))
               \<and> (present t = [] \<longrightarrow> map_of df' ''attendance'' = Some (NumCol t))
               \<and> (present s = [] \<longrightarrow> map_of df' ''assignment_score'' = Some (NumCol s))
               \<and> (present x = [] \<longrightarrow> map_of df' ''exam_score'' = Some (NumCol x))))"
proof -
  define df4 where "df4 = setitem (setitem (setitem (setitem df ''age'' (NumCol (fillna (median a) a)))
      ''attendance'' (NumCol (fillna (median t) t)))
      ''assignment_score'' (NumCol (fillna (median s) s)))
      ''exam_score'' (NumCol (fillna (median x) x))"
  have imp: "impute df = seq (assign df4 ''gender'' 145 fill_mode) (\<lambda>df. assign df ''department'' 146 fill_mode)"
    using assms(1-4) by (simp add: impute_def assign_Some map_of_setitem df4_def)
  have g4: "map_of df4 ''gender'' = Some g" and d4: "map_of df4 ''department'' = Some d"
    using assms(5,6) by (simp_all add: df4_def map_of_setitem)
  have a4: "map_of df4 ''age'' = Some (NumCol (fillna (median a) a))"
    and t4: "map_of df4 ''attendance'' = Some (NumCol (fillna (median t) t))"
    and s4: "map_of df4 ''assignment_score'' = Some (NumCol (fillna (median s) s))"
    and x4: "map_of df4 ''exam_score'' = Some (NumCol (fillna (median x) x))"
    by (simp_all add: df4_def map_of_setitem)
  have c1: "impute df = Inl (KeyError ''0'', 145)" if "all_absent g"
    using that by (simp add: imp assign_Some [OF g4] fill_mode_absent)
  have c2: "impute df = Inl (KeyError ''0'', 146)" if "\<not> all_absent g" "all_absent d"
  proof -
    from fill_mode_present [OF that(1)] obtain v where "fill_mode g 145 = Inr v" by blast
    then show ?thesis
      using that(2) by (simp add: imp assign_Some [OF g4] assign_Some d4 map_of_setitem fill_mode_absent)
  qed
  have c3: "\<exists>df'. impute df = Inr df'
               \<and> (present a = [] \<longrightarrow> map_of df' ''age'' = Some (NumCol a))
               \<and> (present t = [] \<longrightarrow> map_of df' ''attendance'' = Some (NumCol t))
               \<and> (present s = [] \<longrightarrow> map_of df' ''assignment_score'' = Some (NumCol s))
               \<and> (present x = [] \<longrightarrow> map_of df' ''exam_score'' = Some (NumCol x))"
    if "\<not> all_absent g" "\<not> all_absent d"
  proof -
    from fill_mode_present [OF that(1)] obtain v where v: "fill_mode g 145 = Inr v" by blast
    from fill_mode_present [OF that(2)] obtain w where w: "fill_mode d 146 = Inr w" by blast
    have "impute df = Inr (setitem (setitem df4 ''gender'' v) ''department'' w)"
      using v w by (simp add: imp assign_Some [OF g4] assign_Some d4 map_of_setitem)
    then show ?thesis
      using a4 t4 s4 x4 by (simp add: map_of_setitem median_all_absent)
  qed
  from c1 c2 c3 show ?thesis by blast
qed


theorem impute_entirely_absent_witness:
  "map_of numeric_frame ''age'' = Some (NumCol [None, None]) \<and> present [None :: real option, None] = []
   \<and> \<not> all_absent (NumCol [Some 1, Some 0]) \<and> \<not> all_absent (NumCol [Some 3, Some 3])
   \<and> impute numeric_frame = Inr numeric_frame
   \<and> all_absent (NumCol [None, None])
   \<and> impute (setitem numeric_frame ''gender'' (NumCol [None, None])) = Inl (KeyError ''0'', 145)"
proof -
  have n: "map_of numeric_frame ''age'' = Some (NumCol [None, None])"
     "map_of numeric_frame ''attendance'' = Some (NumCol [Some 105, Some (- 5)])"
     "map_of numeric_frame ''assignment_score'' = Some (NumCol [Some 80, Some 75])"
     "map_of numeric_frame ''exam_score'' = Some (NumCol [Some 70, Some 65])"
     "map_of numeric_frame ''gender'' = Some (NumCol [Some 1, Some 0])"
     "map_of numeric_frame ''department'' = Some (NumCol [Some 3, Some 3])"
    by (simp_all add: numeric_frame_def)
  have p: "\<not> all_absent (NumCol [Some 1, Some 0]) \<and> \<not> all_absent (NumCol [Some 3, Some 3])"
    by simp
  from impute_entirely_absent [OF n] p
  obtain df' where df': "impute numeric_frame = Inr df'" "map_of df' ''age'' = Some (NumCol [None, None])"
    by auto
  have e: "impute numeric_frame = Inr numeric_frame"
    by code_simp
  let ?g = "setitem numeric_frame ''gender'' (NumCol [None, None])"
  have m: "map_of ?g ''age'' = Some (NumCol [None, None])"
     "map_of ?g ''attendance'' = Some (NumCol [Some 105, Some (- 5)])"
     "map_of ?g ''assignment_score'' = Some (NumCol [Some 80, Some 75])"
     "map_of ?g ''exam_score'' = Some (NumCol [Some 70, Some 65])"
     "map_of ?g ''gender'' = Some (NumCol [None, None])"
     "map_of ?g ''department'' = Some (NumCol [Some 3, Some 3])"
    by (simp_all add: numeric_frame_def)
  have a: "all_absent (NumCol [None, None])" by simp
  from impute_entirely_absent [OF m] a
  have "impute ?g = Inl (KeyError ''0'', 145)" by blast
  with n(1) p e a df' show ?thesis by simp
qed

text \<open>
  The claim as stated fails on a table whose \<open>age\<close> is empty in every row: the table
  reaches the imputation unchanged, the imputation completes without an error and leaves
  \<open>age\<close> entirely absent. The run goes on through the standardization; what ends it,
  at line 161, is the unbound name \<open>np\<close>, not a report of the absent column.
\<close>

theorem entirely_absent_age_kept_counterexample:
  "map_of numeric_frame ''age'' = Some (NumCol [None, None])
   \<and> all_absent (NumCol [None, None])
   \<and> drop_duplicates numeric_frame = numeric_frame
   \<and> replace_missing numeric_frame = Inr numeric_frame
   \<and> convert_scores demo_lib numeric_frame = Inr numeric_frame
   \<and> impute numeric_frame = Inr numeric_frame
   \<and> script demo_lib (Csv numeric_frame) = Inl (NameError ''np'', 161)"
  by code_simp

lemma fillna_Some_nth:
  "fillna (Some m) xs = map (\<lambda>x. case x of None \<Rightarrow> Some m | Some v \<Rightarrow> Some v) xs"
  by (simp add: fillna_def)

text \<open>
  Claim C4, as amended. For a column \<open>c\<close> (\<open>gender\<close> at line 145,
  \<open>department\<close> at line 146) with at least one present value, the statement
  \<open>df[c] = df[c].fillna(df[c].mode()[0])\<close> does not raise; it replaces every absent cell
  by one value \<open>m\<close> and leaves the present cells as they are; \<open>m\<close> is a present value
  of the largest frequency, and among the values of that frequency it is the smallest (in
  the order of strings for a text column, of numbers for a coded one), since
  \<open>mode()\<close> returns its values sorted.
\<close>

theorem fill_mode_least_most_frequent:
  assumes "map_of df c = Some col"
  shows "(\<forall>xs. col = ObjectCol xs \<and> present xs \<noteq> [] \<longrightarrow>
           (\<exists>m. assign df c l fill_mode =
                  Inr (setitem df c (ObjectCol (map (\<lambda>x. case x of None \<Rightarrow> Some m | Some v \<Rightarrow> Some v) xs)))
              \<and> m \<in> set (present xs)
              \<and> (\<forall>w. count_list (present xs) w \<le> count_list (present xs) m)
              \<and> (\<forall>w. count_list (present xs) w = count_list (present xs) m \<longrightarrow> m \<le> w)))
       \<and> (\<forall>xs. col = NumCol xs \<and> present xs \<noteq> [] \<longrightarrow>
           (\<exists>m. assign df c l fill_mode =
                  Inr (setitem df c (NumCol (map (\<lambda>x. case x of None \<Rightarrow> Some m | Some v \<Rightarrow> Some v) xs)))
              \<and> m \<in> set (present xs)
              \<and> (\<forall>w. count_list (present xs) w \<le> count_list (present xs) m)
              \<and> (\<forall>w. count_list (present xs) w = count_list (present xs) m \<longrightarrow> m \<le> w)))"
proof (intro conjI allI impI)
  fix xs assume h: "col = ObjectCol xs \<and> present xs \<noteq> []"
  then obtain m rest where ms: "modes (present xs) = m # rest"
    by (cases "modes (present xs)") (auto simp: modes_eq_Nil_iff)
  have "assign df c l fill_mode = Inr (setitem df c (ObjectCol (fillna (Some m) xs)))"
    using assms h ms by (simp add: assign_Some)
  with modes_Cons [OF ms]
  show "\<exists>m. assign df c l fill_mode =
                  Inr (setitem df c (ObjectCol (map (\<lambda>x. case x of None \<Rightarrow> Some m | Some v \<Rightarrow> Some v) xs)))
              \<and> m \<in> set (present xs)
              \<and> (\<forall>w. count_list (present xs) w \<le> count_list (present xs) m)
              \<and> (\<forall>w. count_list (present xs) w = count_list (present xs) m \<longrightarrow> m \<le> w)"
    by (auto simp: fillna_Some_nth)
next
  fix xs assume h: "col = NumCol xs \<and> present xs \<noteq> []"
  then obtain m rest where ms: "modes (present xs) = m # rest"
    by (cases "modes (present xs)") (auto simp: modes_eq_Nil_iff)
  have "assign df c l fill_mode = Inr (setitem df c (NumCol (fillna (Some m) xs)))"
    using assms h ms by (simp add: assign_Some)
  with modes_Cons [OF ms]
  show "\<exists>m. assign df c l fill_mode =
                  Inr (setitem df c (NumCol (map (\<lambda>x. case x of None \<Rightarrow> Some m | Some v \<Rightarrow> Some v) xs)))
              \<and> m \<in> set (present xs)
              \<and> (\<forall>w. count_list (present xs) w \<le> count_list (present xs) m)
              \<and> (\<forall>w. count_list (present xs) w = count_list (present xs) m \<longrightarrow> m \<le> w)"
    by (auto simp: fillna_Some_nth)
qed

theorem fill_mode_least_most_frequent_witness:
  "map_of raw_frame ''gender'' = Some (ObjectCol [Some ''Male'', Some ''Female'', None])
   \<and> present [Some ''Male'', Some ''Female'', None] \<noteq> []
   \<and> assign raw_frame ''gender'' 145 fill_mode =
       Inr (setitem raw_frame ''gender'' (ObjectCol [Some ''Male'', Some ''Female'', Some ''Female'']))
   \<and> map_of coded_tie_frame ''gender'' = Some (NumCol [Some 1, Some 0, None])
   \<and> present [Some (1::real), Some 0, None] \<noteq> []
   \<and> assign coded_tie_frame ''gender'' 145 fill_mode =
       Inr (setitem coded_tie_frame ''gender'' (NumCol [Some 1, Some 0, Some 0]))"
proof -
  let ?xs = "[Some ''Male'', Some ''Female'', None]"
  have h: "map_of raw_frame ''gender'' = Some (ObjectCol ?xs)"
    by (simp add: raw_frame_def)
  have p: "ObjectCol ?xs = ObjectCol ?xs \<and> present ?xs \<noteq> []"
    by simp
  from fill_mode_least_most_frequent [OF h, of 145] p
  obtain m where m: "assign raw_frame ''gender'' 145 fill_mode =
      Inr (setitem raw_frame ''gender'' (ObjectCol (map (\<lambda>x. case x of None \<Rightarrow> Some m | Some v \<Rightarrow> Some v) ?xs)))"
    "m \<in> set (present ?xs)"
    "\<forall>w. count_list (present ?xs) w = count_list (present ?xs) m \<longrightarrow> m \<le> w"
    by blast
  have "\<not> ''Male'' \<le> ''Female''"
    by code_simp
  with m(2) m(3) [rule_format, of "''Female''"] have "m = ''Female''"
    by auto
  with m(1) have strs: "assign raw_frame ''gender'' 145 fill_mode =
       Inr (setitem raw_frame ''gender'' (ObjectCol [Some ''Male'', Some ''Female'', Some ''Female'']))"
    by simp
  let ?ys = "[Some (1::real), Some 0, None]"
  have k: "map_of coded_tie_frame ''gender'' = Some (NumCol ?ys)"
    by (simp add: coded_tie_frame_def)
  have q: "NumCol ?ys = NumCol ?ys \<and> present ?ys \<noteq> []"
    by simp
  from fill_mode_least_most_frequent [OF k, of 145] q
  obtain n where n: "assign coded_tie_frame ''gender'' 145 fill_mode =
      Inr (setitem coded_tie_frame ''gender'' (NumCol (map (\<lambda>x. case x of None \<Rightarrow> Some n | Some v \<Rightarrow> Some v) ?ys)))"
    "n \<in> set (present ?ys)"
    "\<forall>w. count_list (present ?ys) w = count_list (present ?ys) n \<longrightarrow> n \<le> w"
    by blast
  from n(2) n(3) [rule_format, of 0] have "n = 0"
    by auto
  with n(1) have num: "assign coded_tie_frame ''gender'' 145 fill_mode =
       Inr (setitem coded_tie_frame ''gender'' (NumCol [Some 1, Some 0, Some 0]))"
    by simp
  from h strs k num show ?thesis by simp
qed

text \<open>
  The claim as stated fails on a tie. In the coded table the genders 1 and 0 occur once
  each: the first in table order is 1, and the imputation, which this table reaches
  unchanged, fills the empty cell with 0. Likewise the text column Male, Female, absent
  is filled with Female.
\<close>

theorem mode_tie_takes_sorted_first_counterexample:
  "map_of coded_tie_frame ''gender'' = Some (NumCol [Some 1, Some 0, None])
   \<and> spec_first_mode (present [Some (1::real), Some 0, None]) = Some 1
   \<and> explore coded_tie_frame = Inr ()
   \<and> drop_duplicates coded_tie_frame = coded_tie_frame
   \<and> replace_missing coded_tie_frame = Inr coded_tie_frame
   \<and> convert_scores demo_lib coded_tie_frame = Inr coded_tie_frame
   \<and> impute coded_tie_frame = Inr (setitem coded_tie_frame ''gender'' (NumCol [Some 1, Some 0, Some 0]))
   \<and> map_of raw_frame ''gender'' = Some (ObjectCol [Some ''Male'', Some ''Female'', None])
   \<and> spec_first_mode (present [Some ''Male'', Some ''Female'', None]) = Some ''Male''
   \<and> assign raw_frame ''gender'' 145 fill_mode =
       Inr (setitem raw_frame ''gender'' (ObjectCol [Some ''Male'', Some ''Female'', Some ''Female'']))"
  by code_simp

subsection \<open>Numeric coercion\<close>





subsection \<open>Categorical standardization\<close>




end
